theory Spec2Isabelle
  imports Complex_Main "HOL-Library.Multiset"
begin

section \<open>Python values\<close>

text \<open>
  The dashboard script works on the value that \<open>resp.json()\<close> returns: \<open>None\<close>, a bool,
  a number, a string, a list or a dict. A dict is kept as the list of its items.
  Numbers are modelled as \<open>real\<close>: Python's ints and finite floats embed into the reals
  and their comparisons are exact; the rounding error of float arithmetic and the IEEE
  special values are outside the model.
\<close>

datatype json =
    JNull
  | JBool bool
  | JNum real
  | JStr string
  | JArr "json list"
  | JObj "(string \<times> json) list"

datatype py_error = AttributeError | TypeError | ValueError | KeyError

text \<open>\<open>obj.get(key, default)\<close>: only a dict has the method.\<close>

definition py_get :: "json \<Rightarrow> string \<Rightarrow> json \<Rightarrow> py_error + json" where
  "py_get obj key dflt =
     (case obj of
        JObj items \<Rightarrow> (case map_of items key of None \<Rightarrow> Inr dflt | Some v \<Rightarrow> Inr v)
      | _ \<Rightarrow> Inl AttributeError)"

text \<open>Truth value of a Python object, as \<open>if x:\<close> and \<open>not x\<close> test it.\<close>

fun truthy :: "json \<Rightarrow> bool" where
  "truthy JNull = False"
| "truthy (JBool b) = b"
| "truthy (JNum x) = (x \<noteq> 0)"
| "truthy (JStr s) = (s \<noteq> [])"
| "truthy (JArr xs) = (xs \<noteq> [])"
| "truthy (JObj items) = (items \<noteq> [])"

text \<open>A value in a numeric position: \<open>bool\<close> is a subclass of \<open>int\<close>.\<close>

fun as_number :: "json \<Rightarrow> real option" where
  "as_number (JNum x) = Some x"
| "as_number (JBool b) = Some (if b then 1 else 0)"
| "as_number _ = None"

section \<open>Strings\<close>

text \<open>
  \<open>str.replace("_", " ")\<close> and \<open>str.title()\<close>. Case mapping is that of the ASCII
  letters; any other character is uncased and left as it is.
\<close>

definition is_upper :: "char \<Rightarrow> bool" where
  "is_upper c = (65 \<le> (of_char c :: nat) \<and> (of_char c :: nat) \<le> 90)"

definition is_lower :: "char \<Rightarrow> bool" where
  "is_lower c = (97 \<le> (of_char c :: nat) \<and> (of_char c :: nat) \<le> 122)"

definition is_cased :: "char \<Rightarrow> bool" where
  "is_cased c = (is_upper c \<or> is_lower c)"

definition to_upper :: "char \<Rightarrow> char" where
  "to_upper c = (if is_lower c then char_of ((of_char c :: nat) - 32) else c)"

definition to_lower :: "char \<Rightarrow> char" where
  "to_lower c = (if is_upper c then char_of ((of_char c :: nat) + 32) else c)"

definition replace_underscores :: "string \<Rightarrow> string" where
  "replace_underscores s = map (\<lambda>c. if c = CHR ''_'' then CHR '' '' else c) s"

fun title_from :: "bool \<Rightarrow> string \<Rightarrow> string" where
  "title_from previous_is_cased [] = []"
| "title_from previous_is_cased (c # cs) =
     (if previous_is_cased then to_lower c else to_upper c) # title_from (is_cased c) cs"

definition title :: "string \<Rightarrow> string" where
  "title s = title_from False s"

section \<open>Helpers of the script\<close>

definition RATING_COLORS :: "(string \<times> string) list" where
  "RATING_COLORS =
     [(''Extreme Fear'', ''#d32f2f''),
      (''Fear'', ''#f57c00''),
      (''Neutral'', ''#fdd835''),
      (''Greed'', ''#7cb342''),
      (''Extreme Greed'', ''#2e7d32'')]"

text \<open>\<open>_rating_label(score: float) -> str\<close>\<close>

definition rating_label :: "real \<Rightarrow> string" where
  "rating_label score =
     (if score \<le> 25 then ''Extreme Fear''
      else if score \<le> 45 then ''Fear''
      else if score \<le> 55 then ''Neutral''
      else if score \<le> 75 then ''Greed''
      else ''Extreme Greed'')"

text \<open>
  The same call on an arbitrary Python object: \<open>score <= 25\<close> raises \<open>TypeError\<close>
  unless the object is a number.
\<close>

definition py_rating_label :: "json \<Rightarrow> py_error + string" where
  "py_rating_label score =
     (case as_number score of None \<Rightarrow> Inl TypeError | Some x \<Rightarrow> Inr (rating_label x))"

text \<open>\<open>key in d\<close> and \<open>d.get(key, default)\<close> on the constant dicts of the script.\<close>

definition has_key :: "(string \<times> 'v) list \<Rightarrow> string \<Rightarrow> bool" where
  "has_key d key = (map_of d key \<noteq> None)"

definition get_or :: "(string \<times> 'v) list \<Rightarrow> string \<Rightarrow> 'v \<Rightarrow> 'v" where
  "get_or d key dflt = (case map_of d key of None \<Rightarrow> dflt | Some v \<Rightarrow> v)"

text \<open>
  The normalisation of a rating that came with the payload. The script has it twice,
  with the same three statements, for the index (\<open>rating_display\<close>) and for every
  indicator (\<open>ind_rating\<close>):
  \<^verbatim>\<open>
  rating_display = current_rating.replace("_", " ").title()
  if rating_display not in RATING_COLORS:
      rating_display = _rating_label(current_score)
  \<close>
  \<open>replace\<close> is a method of strings only.
\<close>

definition normalise_rating :: "json \<Rightarrow> json \<Rightarrow> py_error + string" where
  "normalise_rating rating score =
     (case rating of
        JStr r \<Rightarrow>
          (let shown = title (replace_underscores r) in
           if \<not> has_key RATING_COLORS shown then py_rating_label score else Inr shown)
      | _ \<Rightarrow> Inl AttributeError)"

section \<open>The current reading\<close>

text \<open>
  The variables that the script binds from the payload before it draws the top row:
  \<^verbatim>\<open>
  fg = data.get("fear_and_greed", {})
  current_score = fg.get("score", 0)
  current_rating = fg.get("rating", _rating_label(current_score))
  previous_close = fg.get("previous_close", current_score)
  timestamp_ms = fg.get("timestamp")
  rating_display = ...   (normalised, see above)
  color = RATING_COLORS.get(rating_display, "#666")
  last_updated = ""
  if timestamp_ms:
      last_updated = datetime.datetime.fromtimestamp(timestamp_ms / 1000, tz=utc).strftime(...)
  \<close>
  The default of \<open>rating\<close> is an argument of \<open>get\<close>, so \<open>_rating_label\<close> runs whether or
  not the payload has a rating. \<open>last_updated\<close> is kept as the instant in seconds that
  the text is formatted from; \<open>None\<close> stands for the empty string.
\<close>

record current_reading =
  current_score :: json
  current_rating :: json
  previous_close :: json
  timestamp_ms :: json
  rating_display :: string
  color :: string
  last_updated :: "real option"

definition format_last_updated :: "json \<Rightarrow> py_error + real option" where
  "format_last_updated ts =
     (if truthy ts
      then (case as_number ts of None \<Rightarrow> Inl TypeError | Some ms \<Rightarrow> Inr (Some (ms / 1000)))
      else Inr None)"

definition read_current :: "json \<Rightarrow> py_error + current_reading" where
  "read_current data =
     (case py_get data ''fear_and_greed'' (JObj []) of Inl e \<Rightarrow> Inl e | Inr fg \<Rightarrow>
     (case py_get fg ''score'' (JNum 0) of Inl e \<Rightarrow> Inl e | Inr score \<Rightarrow>
     (case py_rating_label score of Inl e \<Rightarrow> Inl e | Inr dflt \<Rightarrow>
     (case py_get fg ''rating'' (JStr dflt) of Inl e \<Rightarrow> Inl e | Inr rating \<Rightarrow>
     (case py_get fg ''previous_close'' score of Inl e \<Rightarrow> Inl e | Inr prev \<Rightarrow>
     (case py_get fg ''timestamp'' JNull of Inl e \<Rightarrow> Inl e | Inr ts \<Rightarrow>
     (case normalise_rating rating score of Inl e \<Rightarrow> Inl e | Inr shown \<Rightarrow>
     (case format_last_updated ts of Inl e \<Rightarrow> Inl e | Inr upd \<Rightarrow>
        Inr \<lparr>current_score = score, current_rating = rating, previous_close = prev,
             timestamp_ms = ts, rating_display = shown,
             color = get_or RATING_COLORS shown ''#666'', last_updated = upd\<rparr>))))))))"

section \<open>What the page shows\<close>

text \<open>
  The calls that draw something, in the order the script makes them, are kept as a
  list of events. Texts that the script formats (HTML, numbers with one decimal, dates)
  are kept as the values they are formatted from.
\<close>

datatype event =
    StTitle
  | HeaderCaption
  | StError string
  | StWarning string
  | StInfo string
  | StDivider
  | StSubheader string
  | Gauge real
  | SentimentHeading
  | SentimentName string string
  | Metric real real
  | LastUpdated real
  | BandTable
  | HistoryChart "(real \<times> real) list"
  | Card nat string string string real string
  | Footer

text \<open>
  \<open>Gauge score\<close> is \<open>st.plotly_chart(build_gauge(current_score))\<close>;
  \<open>SentimentName color rating_display\<close> the coloured heading;
  \<open>Metric score delta\<close> is \<open>st.metric\<close> with the score and the delta;
  \<open>LastUpdated t\<close> the caption with the time of the reading;
  \<open>HistoryChart points\<close> the line chart with its (date, score) points in plotting order;
  \<open>Card column label colour rating score description\<close> one indicator card.
\<close>

section \<open>The top row\<close>

text \<open>
  \<open>round(x, 1)\<close>: to the nearest tenth, a tie to the even neighbour.
\<close>

definition py_round1 :: "real \<Rightarrow> real" where
  "py_round1 x =
     (let y = x * 10; f = \<lfloor>y\<rfloor>; d = y - of_int f in
      (if d < 1 / 2 then of_int f
       else if 1 / 2 < d then of_int (f + 1)
       else if even f then of_int f else of_int (f + 1)) / 10)"

text \<open>\<open>delta = round(current_score - previous_close, 1)\<close>\<close>

definition delta :: "current_reading \<Rightarrow> py_error + real" where
  "delta r =
     (case as_number (current_score r) of None \<Rightarrow> Inl TypeError | Some s \<Rightarrow>
     (case as_number (previous_close r) of None \<Rightarrow> Inl TypeError | Some p \<Rightarrow>
        Inr (py_round1 (s - p))))"

text \<open>
  The top row, the gauge on the left and the panel on the right:
  \<^verbatim>\<open>
  st.plotly_chart(build_gauge(current_score), use_container_width=True)
  st.markdown("### Sentiment")
  st.markdown(... color ... rating_display ...)
  delta = round(current_score - previous_close, 1)
  st.metric(label="Score", value=f"{current_score:.1f}", delta=f"{delta:+.1f} vs prev close")
  if last_updated:
      st.caption(f"Last updated: {last_updated}")
  st.markdown(... the table of the five ranges ...)
  \<close>
  The gauge takes a number only.
\<close>

definition top_row :: "current_reading \<Rightarrow> py_error + event list" where
  "top_row r =
     (case as_number (current_score r) of None \<Rightarrow> Inl ValueError | Some s \<Rightarrow>
     (case delta r of Inl e \<Rightarrow> Inl e | Inr d \<Rightarrow>
        Inr ([Gauge s, SentimentHeading, SentimentName (color r) (rating_display r),
              Metric s d]
             @ (case last_updated r of None \<Rightarrow> [] | Some t \<Rightarrow> [LastUpdated t])
             @ [BandTable])))"

section \<open>The historical chart\<close>

text \<open>
  \<^verbatim>\<open>
  hist = data.get("fear_and_greed_historical", {}).get("data")
  if not hist:
      return None
  df = pd.DataFrame(hist)
  df["date"] = pd.to_datetime(df["x"], unit="ms")
  df.rename(columns={"y": "score"}, inplace=True)
  df.sort_values("date", inplace=True)
  ... go.Scatter(x=df["date"], y=df["score"], ...)
  \<close>
  A frame is the list of its rows, a row the pair of its \<open>x\<close> and \<open>y\<close>. The model
  builds a frame from a list of objects with numeric \<open>x\<close> and \<open>y\<close> only and reports
  anything else as an error. A date is the count of nanoseconds that pandas keeps; rows
  with equal dates keep their order. The figure is the list of its points.
\<close>

fun collect :: "('a \<Rightarrow> 'e + 'b) \<Rightarrow> 'a list \<Rightarrow> 'e + 'b list" where
  "collect f [] = Inr []"
| "collect f (x # xs) =
     (case f x of Inl e \<Rightarrow> Inl e | Inr y \<Rightarrow>
     (case collect f xs of Inl e \<Rightarrow> Inl e | Inr ys \<Rightarrow> Inr (y # ys)))"

definition frame_row :: "json \<Rightarrow> py_error + real \<times> real" where
  "frame_row row =
     (case row of
        JObj items \<Rightarrow>
          (case map_of items ''x'' of
             Some (JNum x) \<Rightarrow>
               (case map_of items ''y'' of
                  Some (JNum y) \<Rightarrow> Inr (x, y)
                | Some _ \<Rightarrow> Inl TypeError
                | None \<Rightarrow> Inl KeyError)
           | Some _ \<Rightarrow> Inl TypeError
           | None \<Rightarrow> Inl KeyError)
      | _ \<Rightarrow> Inl KeyError)"

definition data_frame :: "json \<Rightarrow> py_error + (real \<times> real) list" where
  "data_frame hist =
     (case hist of JArr rows \<Rightarrow> collect frame_row rows | _ \<Rightarrow> Inl ValueError)"

definition to_datetime_ms :: "real \<Rightarrow> real" where
  "to_datetime_ms x = x * 1000000"

definition with_dates :: "(real \<times> real) list \<Rightarrow> (real \<times> real) list" where
  "with_dates rows = map (\<lambda>(x, y). (to_datetime_ms x, y)) rows"

definition sort_values_date :: "(real \<times> real) list \<Rightarrow> (real \<times> real) list" where
  "sort_values_date rows = sort_key fst rows"

definition build_history_chart :: "json \<Rightarrow> py_error + (real \<times> real) list option" where
  "build_history_chart data =
     (case py_get data ''fear_and_greed_historical'' (JObj []) of Inl e \<Rightarrow> Inl e | Inr h \<Rightarrow>
     (case py_get h ''data'' JNull of Inl e \<Rightarrow> Inl e | Inr hist \<Rightarrow>
        if \<not> truthy hist then Inr None
        else (case data_frame hist of Inl e \<Rightarrow> Inl e | Inr df \<Rightarrow>
                Inr (Some (sort_values_date (with_dates df))))))"

definition history_section :: "json \<Rightarrow> py_error + event list" where
  "history_section data =
     (case build_history_chart data of
        Inl e \<Rightarrow> Inl e
      | Inr None \<Rightarrow> Inr [StInfo ''Historical data is not available right now.'']
      | Inr (Some hist_fig) \<Rightarrow> Inr [HistoryChart hist_fig])"

section \<open>The indicator cards\<close>

text \<open>The dash of the fourth description is U+2014, here in UTF-8.\<close>

definition INDICATOR_INFO :: "(string \<times> string) list" where
  "INDICATOR_INFO =
     [(''Market Momentum'', ''S&P 500 vs its 125-day moving average.''),
      (''Stock Price Strength'', ''Net new 52-week highs vs lows on the NYSE.''),
      (''Stock Price Breadth'', ''Volume of advancing vs declining shares.''),
      (''Put and Call Options'',
         ''Put/call ratio '' @ [CHR 0xE2, CHR 0x80, CHR 0x94] @ '' high put volume signals fear.''),
      (''Market Volatility'', ''VIX level relative to its 50-day moving average.''),
      (''Safe Haven Demand'', ''Bond returns vs stock returns over 20 days.''),
      (''Junk Bond Demand'', ''Yield spread between junk bonds and investment-grade bonds.'')]"

definition INDICATOR_KEYS :: "(string \<times> string) list" where
  "INDICATOR_KEYS =
     [(''market_momentum_sp500'', ''Market Momentum''),
      (''stock_price_strength'', ''Stock Price Strength''),
      (''stock_price_breadth'', ''Stock Price Breadth''),
      (''put_call_options'', ''Put and Call Options''),
      (''market_volatility_vix'', ''Market Volatility''),
      (''safe_haven_demand'', ''Safe Haven Demand''),
      (''junk_bond_demand'', ''Junk Bond Demand'')]"

text \<open>\<open>f"{score:.1f}"\<close>: a number is formatted, a string has no format code \<open>f\<close>.\<close>

fun format_f1 :: "json \<Rightarrow> py_error + real" where
  "format_f1 (JNum x) = Inr x"
| "format_f1 (JBool b) = Inr (if b then 1 else 0)"
| "format_f1 (JStr s) = Inl ValueError"
| "format_f1 _ = Inl TypeError"

text \<open>
  One turn of the loop over \<open>INDICATOR_KEYS\<close>: \<open>Inr None\<close> is \<open>continue\<close>,
  \<open>Inr (Some drawn)\<close> the card drawn in column \<open>col_idx % cols_per_row\<close>.
  \<^verbatim>\<open>
  indicator = data.get(key, {})
  if not indicator:
      continue
  score = indicator.get("score")
  rating = indicator.get("rating", "")
  if score is None:
      continue
  ind_rating = ...   (normalised, see above)
  ind_color = RATING_COLORS.get(ind_rating, "#666")
  with row_cols[col_idx % cols_per_row]:
      st.markdown(...)
  \<close>
\<close>

definition indicator_card :: "json \<Rightarrow> string \<Rightarrow> string \<Rightarrow> nat \<Rightarrow> py_error + event option" where
  "indicator_card data key label col_idx =
     (case py_get data key (JObj []) of Inl e \<Rightarrow> Inl e | Inr indicator \<Rightarrow>
        if \<not> truthy indicator then Inr None
        else
     (case py_get indicator ''score'' JNull of Inl e \<Rightarrow> Inl e | Inr score \<Rightarrow>
     (case py_get indicator ''rating'' (JStr []) of Inl e \<Rightarrow> Inl e | Inr rating \<Rightarrow>
        if score = JNull then Inr None
        else
     (case normalise_rating rating score of Inl e \<Rightarrow> Inl e | Inr ind_rating \<Rightarrow>
     (case format_f1 score of Inl e \<Rightarrow> Inl e | Inr shown_score \<Rightarrow>
        Inr (Some (Card (col_idx mod 2) label
                     (get_or RATING_COLORS ind_rating ''#666'') ind_rating
                     shown_score (get_or INDICATOR_INFO label []))))))))"

fun indicator_loop :: "json \<Rightarrow> (string \<times> string) list \<Rightarrow> nat \<Rightarrow> py_error + event list" where
  "indicator_loop data [] col_idx = Inr []"
| "indicator_loop data ((key, label) # rest) col_idx =
     (case indicator_card data key label col_idx of
        Inl e \<Rightarrow> Inl e
      | Inr None \<Rightarrow> indicator_loop data rest col_idx
      | Inr (Some drawn) \<Rightarrow>
          (case indicator_loop data rest (col_idx + 1) of
             Inl e \<Rightarrow> Inl e
           | Inr cards \<Rightarrow> Inr (drawn # cards)))"

section \<open>The page\<close>

text \<open>Everything the script draws once it has a payload, from the top row to the footer.\<close>

definition dashboard :: "json \<Rightarrow> py_error + event list" where
  "dashboard data =
     (case read_current data of Inl e \<Rightarrow> Inl e | Inr r \<Rightarrow>
     (case top_row r of Inl e \<Rightarrow> Inl e | Inr upper \<Rightarrow>
     (case history_section data of Inl e \<Rightarrow> Inl e | Inr hist \<Rightarrow>
     (case indicator_loop data INDICATOR_KEYS 0 of Inl e \<Rightarrow> Inl e | Inr cards \<Rightarrow>
        Inr (upper @ [StDivider] @ hist
             @ [StDivider, StSubheader ''Component Indicators''] @ cards
             @ [StDivider, Footer])))))"

section \<open>The fetch\<close>

text \<open>
  What one request does, by the statement of the \<open>try\<close> block that ends it:
  \<^verbatim>\<open>
  try:
      resp = requests.get(f"{CNN_API_URL}/{start_date}", headers=headers, timeout=10)
      resp.raise_for_status()
      return resp.json()
  except Exception as exc:
      st.error(f"Failed to fetch data from CNN: {exc}")
      return None
  \<close>
  \<open>GetRaises\<close> is a transport failure, \<open>StatusRaises\<close> a status that
  \<open>raise_for_status\<close> rejects, \<open>JsonRaises\<close> a body that does not parse; each carries
  the text of the exception. The network is the answer to the n-th request; the fetch
  returns the number of requests made so far with its result. The cache around the
  function is not modelled.
\<close>

datatype outcome = GetRaises string | StatusRaises string | JsonRaises string | JsonBody json

definition fetch_fear_greed_data :: "(nat \<Rightarrow> outcome) \<Rightarrow> nat \<Rightarrow> event list \<times> json \<times> nat" where
  "fetch_fear_greed_data network requests =
     (case network requests of
        JsonBody body \<Rightarrow> ([], body, requests + 1)
      | GetRaises exc \<Rightarrow>
          ([StError (''Failed to fetch data from CNN: '' @ exc)], JNull, requests + 1)
      | StatusRaises exc \<Rightarrow>
          ([StError (''Failed to fetch data from CNN: '' @ exc)], JNull, requests + 1)
      | JsonRaises exc \<Rightarrow>
          ([StError (''Failed to fetch data from CNN: '' @ exc)], JNull, requests + 1))"

text \<open>
  A run of the script: it ends at \<open>st.stop()\<close>, at its last line, or with an exception
  that nothing catches.
\<close>

datatype run = Stopped "event list" | Completed "event list" | Raised py_error

definition streamlit_app :: "(nat \<Rightarrow> outcome) \<Rightarrow> nat \<Rightarrow> run \<times> nat" where
  "streamlit_app network requests =
     (case fetch_fear_greed_data network requests of
        (shown, data, requests') \<Rightarrow>
          if data = JNull
          then (Stopped ([StTitle, HeaderCaption] @ shown
                  @ [StWarning ''Unable to load Fear & Greed data. Please try again later.'']),
                requests')
          else (case dashboard data of
                  Inl e \<Rightarrow> (Raised e, requests')
                | Inr drawn \<Rightarrow>
                    (Completed ([StTitle, HeaderCaption] @ shown @ drawn), requests')))"

section \<open>The shape of a payload\<close>













text \<open>
  The current reading lacks a field when \<open>fg\<close>, the object under \<open>fear_and_greed\<close> or
  the empty dict that stands in for it, has no such key.
\<close>

definition current_lacks :: "json \<Rightarrow> string \<Rightarrow> bool" where
  "current_lacks data field =
     (case py_get data ''fear_and_greed'' (JObj []) of
        Inr (JObj members) \<Rightarrow> map_of members field = None
      | _ \<Rightarrow> False)"






fun is_message :: "event \<Rightarrow> bool" where
  "is_message (StError text) = True"
| "is_message (StWarning text) = True"
| "is_message (StInfo text) = True"
| "is_message _ = False"

fun shown_of :: "run \<Rightarrow> event list" where
  "shown_of (Stopped shown) = shown"
| "shown_of (Completed shown) = shown"
| "shown_of (Raised e) = []"

fun failure_of :: "outcome \<Rightarrow> string option" where
  "failure_of (GetRaises exc) = Some exc"
| "failure_of (StatusRaises exc) = Some exc"
| "failure_of (JsonRaises exc) = Some exc"
| "failure_of (JsonBody body) = None"

section \<open>The specification's bands\<close>

text \<open>
  The band type and the two rules of the specification, written from its words, to
  compare the script with: the five ranges of the classifier, and the look-up of a
  normalised label among the five canonical names with the classifier as the fallback.
\<close>

datatype SentimentBand = ExtremeFear | Fear | Neutral | Greed | ExtremeGreed

fun band_name :: "SentimentBand \<Rightarrow> string" where
  "band_name ExtremeFear = ''Extreme Fear''"
| "band_name Fear = ''Fear''"
| "band_name Neutral = ''Neutral''"
| "band_name Greed = ''Greed''"
| "band_name ExtremeGreed = ''Extreme Greed''"

definition spec_classify :: "real \<Rightarrow> SentimentBand" where
  "spec_classify score =
     (if score \<le> 25 then ExtremeFear
      else if 25 < score \<and> score \<le> 45 then Fear
      else if 45 < score \<and> score \<le> 55 then Neutral
      else if 55 < score \<and> score \<le> 75 then Greed
      else ExtremeGreed)"



section \<open>Example payloads\<close>





text \<open>A payload whose current reading has neither score nor previous close.\<close>

definition scoreless_payload :: json where
  "scoreless_payload = JObj [(''fear_and_greed'', JObj [(''rating'', JStr ''unknown'')])]"

section \<open>Auxiliary facts\<close>

lemma py_get_obj:
  "py_get (JObj items) key dflt = Inr (case map_of items key of None \<Rightarrow> dflt | Some v \<Rightarrow> v)"
  by (simp add: py_get_def split: option.splits)



lemma band_name_classify: "band_name (spec_classify s) = rating_label s"
  by (simp add: spec_classify_def rating_label_def)




lemma title_band_name: "title (replace_underscores (band_name band)) = band_name band"
  by (cases band; simp; code_simp)

lemma has_key_rating_label: "has_key RATING_COLORS (rating_label s)"
  by (simp add: has_key_def RATING_COLORS_def rating_label_def)

lemma title_rating_label: "title (replace_underscores (rating_label s)) = rating_label s"
  using title_band_name [of "spec_classify s"] by (simp add: band_name_classify)


lemma normalise_rating_canonical:
  "normalise_rating rating score = Inr shown \<Longrightarrow> has_key RATING_COLORS shown"
  by (auto simp: normalise_rating_def py_rating_label_def Let_def has_key_rating_label
      split: json.splits if_splits option.splits)



















lemma read_current_parts:
  assumes "read_current data = Inr r"
  shows "\<exists>fg s. py_get data ''fear_and_greed'' (JObj []) = Inr fg \<and>
     py_get fg ''score'' (JNum 0) = Inr (current_score r) \<and>
     as_number (current_score r) = Some s \<and>
     py_get fg ''rating'' (JStr (rating_label s)) = Inr (current_rating r) \<and>
     py_get fg ''previous_close'' (current_score r) = Inr (previous_close r) \<and>
     py_get fg ''timestamp'' JNull = Inr (timestamp_ms r) \<and>
     normalise_rating (current_rating r) (current_score r) = Inr (rating_display r) \<and>
     format_last_updated (timestamp_ms r) = Inr (last_updated r) \<and>
     color r = get_or RATING_COLORS (rating_display r) ''#666''"
  using assms
  by (auto simp: read_current_def py_rating_label_def split: sum.splits option.splits)















section \<open>The classifier\<close>

text \<open>
  C1. The classifier is a total function of the score and its five results partition
  the line at 25, 45, 55 and 75, each boundary belonging to the lower band: the label is
  Extreme Fear exactly when the score is at most 25, Fear exactly when it is above 25 and
  at most 45, Neutral exactly when above 45 and at most 55, Greed exactly when above 55
  and at most 75, Extreme Greed exactly when above 75. So 25 is Extreme Fear, 25.01 is
  Fear, 75 is Greed, 75.01 is Extreme Greed, and scores below 0 or above 100 fall into
  the outermost bands.
\<close>

theorem rating_label_partition:
  "(rating_label s = ''Extreme Fear'' \<longleftrightarrow> s \<le> 25) \<and>
   (rating_label s = ''Fear'' \<longleftrightarrow> 25 < s \<and> s \<le> 45) \<and>
   (rating_label s = ''Neutral'' \<longleftrightarrow> 45 < s \<and> s \<le> 55) \<and>
   (rating_label s = ''Greed'' \<longleftrightarrow> 55 < s \<and> s \<le> 75) \<and>
   (rating_label s = ''Extreme Greed'' \<longleftrightarrow> 75 < s) \<and>
   rating_label s \<in> {''Extreme Fear'', ''Fear'', ''Neutral'', ''Greed'', ''Extreme Greed''} \<and>
   rating_label 25 = ''Extreme Fear'' \<and>
   rating_label (2501 / 100) = ''Fear'' \<and>
   rating_label 75 = ''Greed'' \<and>
   rating_label (7501 / 100) = ''Extreme Greed'' \<and>
   (s < 0 \<longrightarrow> rating_label s = ''Extreme Fear'') \<and>
   (100 < s \<longrightarrow> rating_label s = ''Extreme Greed'') \<and>
   rating_label s = band_name (spec_classify s)"
  by (simp add: rating_label_def spec_classify_def)

theorem rating_label_partition_witness:
  "rating_label (- 5) = ''Extreme Fear'' \<and> rating_label 150 = ''Extreme Greed'' \<and>
   rating_label 50 = ''Neutral'' \<and> rating_label 30 = ''Fear''"
  using rating_label_partition [of "- 5"] rating_label_partition [of 150]
    rating_label_partition [of 50] rating_label_partition [of 30]
  by simp

section \<open>The normalisation of a supplied rating\<close>



section \<open>The band of the current reading\<close>

text \<open>
  C3, as the spec states it, does not hold: the band shown for the current reading is
  not always the classifier's output for the score. With a score of 10 and the rating
  \<open>extreme_greed\<close> the page shows Extreme Greed, and the classifier gives Extreme Fear
  for 10.
\<close>

theorem rating_display_counterexample:
  "read_current
     (JObj [(''fear_and_greed'',
             JObj [(''score'', JNum 10), (''rating'', JStr ''extreme_greed'')])]) =
   Inr \<lparr>current_score = JNum 10, current_rating = JStr ''extreme_greed'',
        previous_close = JNum 10, timestamp_ms = JNull,
        rating_display = ''Extreme Greed'', color = ''#2e7d32'',
        last_updated = None\<rparr> \<and>
   rating_label 10 = ''Extreme Fear'' \<and>
   ''Extreme Greed'' \<noteq> rating_label 10"
  by code_simp

text \<open>
  C3, amended. For every current reading that the script builds, the band shown is one
  of the five canonical names: it is the supplied rating, normalised, when that is a
  canonical name, and the classifier's output for the score otherwise, in particular
  when the payload has no rating.
\<close>

theorem rating_display_source:
  assumes "read_current data = Inr r"
  shows "\<exists>label s.
     current_rating r = JStr label \<and> as_number (current_score r) = Some s \<and>
     rating_display r =
       (if title (replace_underscores label)
           \<in> {''Extreme Fear'', ''Fear'', ''Neutral'', ''Greed'', ''Extreme Greed''}
        then title (replace_underscores label) else rating_label s) \<and>
     rating_display r
       \<in> {''Extreme Fear'', ''Fear'', ''Neutral'', ''Greed'', ''Extreme Greed''} \<and>
     (current_lacks data ''rating'' \<longrightarrow> rating_display r = rating_label s)"
proof -
  from read_current_parts [OF assms] obtain fg s where
    fg: "py_get data ''fear_and_greed'' (JObj []) = Inr fg" and
    s: "as_number (current_score r) = Some s" and
    rating: "py_get fg ''rating'' (JStr (rating_label s)) = Inr (current_rating r)" and
    shown: "normalise_rating (current_rating r) (current_score r) = Inr (rating_display r)"
    by blast
  from shown obtain label where label: "current_rating r = JStr label"
    by (cases "current_rating r") (simp_all add: normalise_rating_def)
  have names: "has_key RATING_COLORS name \<longleftrightarrow>
      name \<in> {''Extreme Fear'', ''Fear'', ''Neutral'', ''Greed'', ''Extreme Greed''}" for name
    by (simp add: has_key_def RATING_COLORS_def)
  from shown label s have display: "rating_display r =
       (if title (replace_underscores label)
           \<in> {''Extreme Fear'', ''Fear'', ''Neutral'', ''Greed'', ''Extreme Greed''}
        then title (replace_underscores label) else rating_label s)"
    by (auto simp: normalise_rating_def Let_def names py_rating_label_def split: if_splits)
  from normalise_rating_canonical [OF shown]
  have canonical: "rating_display r
       \<in> {''Extreme Fear'', ''Fear'', ''Neutral'', ''Greed'', ''Extreme Greed''}"
    by (simp add: names)
  have absent: "rating_display r = rating_label s" if "current_lacks data ''rating''"
  proof -
    from that fg rating label have "label = rating_label s"
      by (auto simp: current_lacks_def py_get_obj split: json.splits)
    with display title_rating_label [of s] has_key_rating_label [of s] names
    show ?thesis by simp
  qed
  from label s display canonical absent show ?thesis by blast
qed

theorem rating_display_source_witness:
  "read_current scoreless_payload =
     Inr \<lparr>current_score = JNum 0, current_rating = JStr ''unknown'',
          previous_close = JNum 0, timestamp_ms = JNull,
          rating_display = ''Extreme Fear'', color = ''#d32f2f'', last_updated = None\<rparr> \<and>
   rating_display \<lparr>current_score = JNum 0, current_rating = JStr ''unknown'',
          previous_close = JNum 0, timestamp_ms = JNull,
          rating_display = ''Extreme Fear'', color = ''#d32f2f'', last_updated = None\<rparr>
     = rating_label 0 \<and>
   current_lacks (JObj []) ''rating'' \<and>
   read_current (JObj []) =
     Inr \<lparr>current_score = JNum 0, current_rating = JStr ''Extreme Fear'',
          previous_close = JNum 0, timestamp_ms = JNull,
          rating_display = ''Extreme Fear'', color = ''#d32f2f'', last_updated = None\<rparr>"
proof -
  have built: "read_current scoreless_payload =
     Inr \<lparr>current_score = JNum 0, current_rating = JStr ''unknown'',
          previous_close = JNum 0, timestamp_ms = JNull,
          rating_display = ''Extreme Fear'', color = ''#d32f2f'', last_updated = None\<rparr>"
    by code_simp
  have bare: "read_current (JObj []) =
     Inr \<lparr>current_score = JNum 0, current_rating = JStr ''Extreme Fear'',
          previous_close = JNum 0, timestamp_ms = JNull,
          rating_display = ''Extreme Fear'', color = ''#d32f2f'', last_updated = None\<rparr>"
    by code_simp
  have lacks: "current_lacks (JObj []) ''rating''"
    by code_simp
  have "title (replace_underscores ''unknown'') = ''Unknown''"
    by code_simp
  with rating_display_source [OF built] rating_display_source [OF bare] built bare lacks
  show ?thesis by simp
qed

section \<open>A failed fetch\<close>

text \<open>
  C5, as the spec states it, does not hold: a failed fetch is not reported exactly once.
  When the request times out the page shows two messages, the error of the fetch with
  the cause and then the warning of the caller.
\<close>

theorem fetch_failure_counterexample:
  "streamlit_app (\<lambda>n. GetRaises ''timed out'') 0 =
     (Stopped [StTitle, HeaderCaption,
               StError ''Failed to fetch data from CNN: timed out'',
               StWarning ''Unable to load Fear & Greed data. Please try again later.''], 1) \<and>
   length (filter is_message (shown_of (fst (streamlit_app (\<lambda>n. GetRaises ''timed out'') 0)))) = 2"
  by (simp add: streamlit_app_def fetch_fear_greed_data_def)

text \<open>
  C5, amended. When the request fails in transport, when its status is rejected, or when
  its body does not parse, the fetch makes that one request and no other, lets no
  exception out and returns \<open>None\<close>, having reported the cause in one error message;
  the caller adds one warning and stops. The page then shows its title and caption and
  these two messages, and nothing of the dashboard.
\<close>

theorem fetch_failure:
  assumes "failure_of (network requests) = Some exc"
  shows "fetch_fear_greed_data network requests =
           ([StError (''Failed to fetch data from CNN: '' @ exc)], JNull, requests + 1) \<and>
         streamlit_app network requests =
           (Stopped [StTitle, HeaderCaption,
                     StError (''Failed to fetch data from CNN: '' @ exc),
                     StWarning ''Unable to load Fear & Greed data. Please try again later.''],
            requests + 1)"
proof -
  from assms have "fetch_fear_greed_data network requests =
           ([StError (''Failed to fetch data from CNN: '' @ exc)], JNull, requests + 1)"
    by (cases "network requests") (simp_all add: fetch_fear_greed_data_def)
  then show ?thesis by (simp add: streamlit_app_def)
qed

theorem fetch_failure_witness:
  "failure_of (StatusRaises ''503 Server Error'') = Some ''503 Server Error'' \<and>
   streamlit_app (\<lambda>n. StatusRaises ''503 Server Error'') 0 =
     (Stopped [StTitle, HeaderCaption,
               StError ''Failed to fetch data from CNN: 503 Server Error'',
               StWarning ''Unable to load Fear & Greed data. Please try again later.''], 1) \<and>
   streamlit_app (\<lambda>n. JsonRaises ''Expecting value'') 0 =
     (Stopped [StTitle, HeaderCaption,
               StError ''Failed to fetch data from CNN: Expecting value'',
               StWarning ''Unable to load Fear & Greed data. Please try again later.''], 1)"
  using fetch_failure [of "\<lambda>n. StatusRaises ''503 Server Error''" 0 "''503 Server Error''"]
    fetch_failure [of "\<lambda>n. JsonRaises ''Expecting value''" 0 "''Expecting value''"]
  by simp

section \<open>The indicator cards in order\<close>



section \<open>The history in order of time\<close>



section \<open>The delta against the previous close\<close>




section \<open>Missing parts of a payload\<close>



section \<open>A current reading without a score\<close>



end
